theory Spec2Isabelle
  imports Main
begin

section \<open>The executor library: a shallow embedding of source/library.cpp\<close>

text \<open>
  The library is C++ written against the Lua C API and the C++ standard library. Its
  own functions (\<open>luaL_dostring\<close>, \<open>ensureWorkspaceDirectory\<close>, \<open>readfile\<close>, the two
  lambdas of \<open>registerExecutorFunctions\<close>, \<open>executeMainLuau\<close>, \<open>hookPlayerAddedEvent\<close>,
  \<open>luaopen_mylibrary\<close>) are translated statement by statement. What they call is not
  part of the repository: the interpreter (\<open>lua_*\<close>, \<open>luaL_ref\<close>, \<open>luau_load\<close>) is
  modelled after the Lua reference manual, the operating system (\<open>system\<close>,
  \<open>std::ifstream\<close>, \<open>std::ofstream\<close>) after POSIX, each as far as this library uses it.
  The non-Windows branch of every \<open>#ifdef _WIN32\<close> is the one modelled.
\<close>

subsection \<open>C strings\<close>

text \<open>
  A \<open>const char*\<close> is read up to its first NUL byte. \<open>lua_tostring\<close> hands out a
  pointer to all the bytes of a Lua string; \<open>std::string::operator+=\<close>,
  \<open>operator<<\<close>, \<open>lua_pushstring\<close> and the \<open>std::string\<close> constructor read that
  pointer as a C string.
\<close>

definition c_str :: "string \<Rightarrow> string" where
  "c_str s = takeWhile (\<lambda>c. c \<noteq> CHR 0x00) s"

subsection \<open>Lua values and the interpreter state\<close>

text \<open>The two C functions the library registers (the lambdas of lines 89 and 94).\<close>

datatype cfunction = CF_readfile | CF_writefile

text \<open>
  A Lua function is a chunk that \<open>luau_load\<close> made from a source text, or some other
  closure (numbered). A number is carried by the text \<open>lua_tolstring\<close> converts it to,
  which is all this library ever does with a number. \<open>LTable\<close> stands for every other
  kind of value (tables, userdata, threads).
\<close>

datatype lfunction = Chunk string | Closure nat

datatype lua_value =
    LNil
  | LBoolean bool
  | LNumber string
  | LString string
  | LFunction lfunction
  | LCFunction cfunction
  | LTable nat

datatype call_result = Returns "lua_value list" | Raises lua_value

text \<open>
  \<open>stack\<close> is the value stack of the running C function, bottom first (index 1 is the
  head, index -1 the last element). \<open>registry\<close> holds the references \<open>luaL_ref\<close>
  made, newest first. How the interpreter compiles and runs Lua code is not the
  library's business: \<open>load_error\<close> says which sources \<open>luau_load\<close> rejects and with
  what message, \<open>call_outcome\<close> what a call of a Lua function returns or raises. The
  effects Lua code may have on globals, the registry or the file system are not modelled;
  the bundled script has none (it assigns locals and calls \<open>print\<close>).
\<close>

record lua_State =
  stack :: "lua_value list"
  globals :: "string \<Rightarrow> lua_value option"
  registry :: "(int \<times> lua_value) list"
  load_error :: "string \<Rightarrow> string option"
  call_outcome :: "lfunction \<Rightarrow> lua_value list \<Rightarrow> call_result"

definition LUA_MULTRET :: int where
  "LUA_MULTRET = - 1"

definition LUA_ERRRUN :: int where
  "LUA_ERRRUN = 2"

definition LUA_REGISTRYINDEX :: int where
  "LUA_REGISTRYINDEX = - 10000"

definition LUA_REFNIL :: int where
  "LUA_REFNIL = - 1"

text \<open>The value at an acceptable index, \<open>None\<close> where the index names no stack slot.\<close>

definition index2value :: "lua_State \<Rightarrow> int \<Rightarrow> lua_value option" where
  "index2value L idx =
     (let n = int (length (stack L)) in
      if 0 < idx \<and> idx \<le> n then Some (stack L ! nat (idx - 1))
      else if idx < 0 \<and> - idx \<le> n then Some (stack L ! nat (n + idx))
      else None)"

definition abs_index :: "lua_State \<Rightarrow> int \<Rightarrow> nat" where
  "abs_index L idx = (if 0 < idx then nat (idx - 1) else nat (int (length (stack L)) + idx))"

text \<open>
  \<open>lua_tostring\<close> (\<open>lua_tolstring\<close> without the length): the bytes of a string; a
  number is converted, and the stack slot with it; \<open>NULL\<close> for anything else and for
  an index beyond the top.
\<close>

definition lua_tostring :: "lua_State \<Rightarrow> int \<Rightarrow> string option \<times> lua_State" where
  "lua_tostring L idx =
     (case index2value L idx of
        Some (LString s) \<Rightarrow> (Some s, L)
      | Some (LNumber t) \<Rightarrow> (Some t, L\<lparr>stack := (stack L)[abs_index L idx := LString t]\<rparr>)
      | _ \<Rightarrow> (None, L))"

definition lua_pushnil :: "lua_State \<Rightarrow> lua_State" where
  "lua_pushnil L = L\<lparr>stack := stack L @ [LNil]\<rparr>"

definition lua_pushstring :: "lua_State \<Rightarrow> string \<Rightarrow> lua_State" where
  "lua_pushstring L s = L\<lparr>stack := stack L @ [LString (c_str s)]\<rparr>"

definition lua_pushboolean :: "lua_State \<Rightarrow> int \<Rightarrow> lua_State" where
  "lua_pushboolean L b = L\<lparr>stack := stack L @ [LBoolean (b \<noteq> 0)]\<rparr>"

text \<open>An index beyond the top reads as nil; a negative one below the frame is outside
  the API's contract, and the callers below rule it out before they use one.\<close>

definition lua_pushvalue :: "lua_State \<Rightarrow> int \<Rightarrow> lua_State" where
  "lua_pushvalue L idx =
     (case index2value L idx of
        Some v \<Rightarrow> L\<lparr>stack := stack L @ [v]\<rparr>
      | None \<Rightarrow> L\<lparr>stack := stack L @ [LNil]\<rparr>)"

definition lua_pop :: "lua_State \<Rightarrow> nat \<Rightarrow> lua_State" where
  "lua_pop L n = L\<lparr>stack := take (length (stack L) - n) (stack L)\<rparr>"

definition lua_isfunction :: "lua_State \<Rightarrow> int \<Rightarrow> bool" where
  "lua_isfunction L idx =
     (case index2value L idx of
        Some (LFunction g) \<Rightarrow> True
      | Some (LCFunction f) \<Rightarrow> True
      | _ \<Rightarrow> False)"

text \<open>The values \<open>lua_tostring\<close> has a text for, as \<open>lua_isstring\<close> tells them.\<close>

definition is_text :: "lua_value \<Rightarrow> bool" where
  "is_text v = (case v of LString s \<Rightarrow> True | LNumber t \<Rightarrow> True | _ \<Rightarrow> False)"

definition lua_isstring :: "lua_State \<Rightarrow> int \<Rightarrow> bool" where
  "lua_isstring L idx = (case index2value L idx of Some v \<Rightarrow> is_text v | None \<Rightarrow> False)"

text \<open>\<open>lua_register\<close>: push the C function, \<open>lua_setglobal\<close> pops it into the global.\<close>

definition lua_register :: "lua_State \<Rightarrow> string \<Rightarrow> cfunction \<Rightarrow> lua_State" where
  "lua_register L name f = L\<lparr>globals := (globals L)(name \<mapsto> LCFunction f)\<rparr>"

text \<open>
  \<open>luaL_ref\<close> pops the top value and stores it in the table under a key no entry
  uses, which it returns; nil is popped and not stored. The library only ever passes
  the registry.
\<close>

definition fresh_ref :: "(int \<times> lua_value) list \<Rightarrow> int" where
  "fresh_ref r = fold max (map fst r) 0 + 1"

definition luaL_ref :: "lua_State \<Rightarrow> int \<Rightarrow> int \<times> lua_State" where
  "luaL_ref L t =
     (case rev (stack L) of
        [] \<Rightarrow> (LUA_REFNIL, L)
      | v # below \<Rightarrow>
          (let L1 = L\<lparr>stack := rev below\<rparr> in
           if v = LNil then (LUA_REFNIL, L1)
           else (fresh_ref (registry L), L1\<lparr>registry := (fresh_ref (registry L), v) # registry L\<rparr>)))"

text \<open>\<open>luau_load\<close> pushes the chunk and returns 0, or pushes the message and returns 1.\<close>

definition luau_load :: "lua_State \<Rightarrow> string \<Rightarrow> string \<Rightarrow> nat \<Rightarrow> int \<Rightarrow> int \<times> lua_State" where
  "luau_load L chunkname data sz env =
     (case load_error L (take sz data) of
        Some msg \<Rightarrow> (1, L\<lparr>stack := stack L @ [LString msg]\<rparr>)
      | None \<Rightarrow> (0, L\<lparr>stack := stack L @ [LFunction (Chunk (take sz data))]\<rparr>))"

definition adjust_results :: "int \<Rightarrow> lua_value list \<Rightarrow> lua_value list" where
  "adjust_results nresults vs =
     (if nresults = LUA_MULTRET then vs
      else take (nat nresults) (vs @ replicate (nat nresults) LNil))"

subsection \<open>The operating system\<close>

text \<open>
  A file system of directories and regular files, keyed by the list of names that leads
  to a node from the root; \<open>cwd\<close> is the key of the working directory. Permissions,
  links and devices are not modelled. \<open>free_space\<close> is the number of bytes the device
  still takes: a write beyond it is cut short, and the stream goes bad. \<open>calls\<close> logs
  what the library asked of the system, in order. \<open>cerr\<close> is what has been written on
  the standard error stream of the process, in order: a \<open>Message\<close> is a line the
  library wrote through \<open>std::cerr\<close>, a \<open>Complaint\<close> what a command run by \<open>system\<close>
  wrote on the stream it inherits when it failed (the wording is the command's own, so
  the entry names the command only).
\<close>

datatype node = File string | Dir

datatype os_call = System string | IfstreamOpen string | OfstreamOpen string

datatype diagnostic = Message string | Complaint string

record os_state =
  cwd :: "string list"
  nodes :: "string list \<Rightarrow> node option"
  free_space :: nat
  calls :: "os_call list"
  cerr :: "diagnostic list"

fun split_path :: "string \<Rightarrow> string list" where
  "split_path [] = [[]]"
| "split_path (c # cs) =
     (if c = CHR ''/'' then [] # split_path cs
      else (case split_path cs of [] \<Rightarrow> [[c]] | x # xs \<Rightarrow> (c # x) # xs))"

text \<open>
  Path resolution: every name is looked up in a directory; an empty name and \<open>.\<close> stay,
  \<open>..\<close> goes up. The last name need not exist.
\<close>

fun walk :: "(string list \<Rightarrow> node option) \<Rightarrow> string list \<Rightarrow> string list \<Rightarrow> string list option" where
  "walk ns cur [] = Some cur"
| "walk ns cur (c # cs) =
     (if ns cur = Some Dir then
        (if c = [] then walk ns cur cs
         else if c = ''.'' then walk ns cur cs
         else if c = ''..'' then walk ns (butlast cur) cs
         else walk ns (cur @ [c]) cs)
      else None)"

definition resolve :: "os_state \<Rightarrow> string \<Rightarrow> string list option" where
  "resolve os p = walk (nodes os) (if take 1 p = ''/'' then [] else cwd os) (split_path p)"

text \<open>
  \<open>mkdir -p d\<close> with its exit status, for a path \<open>d\<close> of one name, the only kind the
  library passes: nothing to do when \<open>d\<close> is a directory, an error when it is a file or
  its parent is no directory.
\<close>

definition mkdir_p :: "string \<Rightarrow> os_state \<Rightarrow> int \<times> os_state" where
  "mkdir_p d os =
     (case resolve os d of
        None \<Rightarrow> (1, os)
      | Some k \<Rightarrow>
          (case nodes os k of
             Some Dir \<Rightarrow> (0, os)
           | Some (File b) \<Rightarrow> (1, os)
           | None \<Rightarrow> (0, os\<lparr>nodes := (nodes os)(k \<mapsto> Dir)\<rparr>)))"

text \<open>
  \<open>system\<close> runs the command in a shell and returns its wait status, which holds the
  exit status in the second byte: 0 for success, 256 for exit status 1, 32512 for 127.
  \<open>mkdir -p workspace\<close> is the one command the library runs; any other is not found
  (exit status 127). A command that fails complains on the standard error stream.
\<close>

definition system :: "string \<Rightarrow> os_state \<Rightarrow> int \<times> os_state" where
  "system cmd os =
     (let os1 = os\<lparr>calls := calls os @ [System cmd]\<rparr>;
          r = (if cmd = ''mkdir -p workspace'' then mkdir_p ''workspace'' os1 else (127, os1))
      in if fst r = 0 then (0, snd r)
         else (256 * fst r, (snd r)\<lparr>cerr := cerr (snd r) @ [Complaint cmd]\<rparr>))"

text \<open>
  \<open>std::ifstream file(p)\<close> and \<open>buffer << file.rdbuf()\<close>: the bytes read when the stream
  is open, \<open>None\<close> when it is not. POSIX opens a directory for reading, and the read
  then yields nothing.
\<close>

definition ifstream_open :: "string \<Rightarrow> os_state \<Rightarrow> string option \<times> os_state" where
  "ifstream_open p os =
     (let os1 = os\<lparr>calls := calls os @ [IfstreamOpen p]\<rparr> in
      case resolve os p of
        None \<Rightarrow> (None, os1)
      | Some k \<Rightarrow>
          (case nodes os k of
             None \<Rightarrow> (None, os1)
           | Some Dir \<Rightarrow> (Some [], os1)
           | Some (File b) \<Rightarrow> (Some b, os1)))"

text \<open>
  \<open>std::ofstream file(p)\<close>: create or truncate; the key of the open file, \<open>None\<close> when
  the stream is not open.
\<close>

definition ofstream_open :: "string \<Rightarrow> os_state \<Rightarrow> string list option \<times> os_state" where
  "ofstream_open p os =
     (let os1 = os\<lparr>calls := calls os @ [OfstreamOpen p]\<rparr> in
      case resolve os p of
        None \<Rightarrow> (None, os1)
      | Some k \<Rightarrow>
          (case nodes os k of
             Some Dir \<Rightarrow> (None, os1)
           | Some (File b) \<Rightarrow> (Some k, os1\<lparr>nodes := (nodes os)(k \<mapsto> File [])\<rparr>)
           | None \<Rightarrow>
               (if k \<noteq> [] \<and> nodes os (butlast k) = Some Dir
                then (Some k, os1\<lparr>nodes := (nodes os)(k \<mapsto> File [])\<rparr>)
                else (None, os1))))"

text \<open>\<open>file << bytes; file.close()\<close>: as much of \<open>bytes\<close> as the device takes is appended.\<close>

definition ofstream_write :: "string list \<Rightarrow> string \<Rightarrow> os_state \<Rightarrow> os_state" where
  "ofstream_write k bytes os =
     (let w = take (free_space os) bytes;
          old = (case nodes os k of Some (File b) \<Rightarrow> b | _ \<Rightarrow> [])
      in os\<lparr>nodes := (nodes os)(k \<mapsto> File (old @ w)), free_space := free_space os - length w\<rparr>)"

subsection \<open>The library\<close>

text \<open>Lines 28-44: the bundled script.\<close>

definition mainLuauScript :: string where
  \<open>mainLuauScript =
     ''-- This is the main Luau script that runs the executor'' @ [CHR 0x0A] @
     ''local workspaceDir = '' @ [CHR 0x27] @ ''workspace'' @ [CHR 0x27, CHR 0x0A] @
     ''local function setup()'' @ [CHR 0x0A] @
     ''    print("Setting up workspace...")'' @ [CHR 0x0A] @
     ''    return true'' @ [CHR 0x0A] @
     ''end'' @ [CHR 0x0A, CHR 0x0A] @
     ''-- Main function that executes when a player is detected'' @ [CHR 0x0A] @
     ''local function onPlayerAdded(player)'' @ [CHR 0x0A] @
     ''    print("Player added: "..tostring(player))'' @ [CHR 0x0A] @
     ''    return true'' @ [CHR 0x0A] @
     ''end'' @ [CHR 0x0A, CHR 0x0A] @
     ''local function initialize()'' @ [CHR 0x0A] @
     ''    setup()'' @ [CHR 0x0A] @
     ''    return onPlayerAdded'' @ [CHR 0x0A] @
     ''end'' @ [CHR 0x0A, CHR 0x0A] @
     ''return initialize()''\<close>

text \<open>Lines 47-54. The function is \<open>void\<close>: what \<open>system\<close> returns is dropped.\<close>

definition ensureWorkspaceDirectory :: "os_state \<Rightarrow> os_state" where
  "ensureWorkspaceDirectory os = snd (system ''mkdir -p workspace'' os)"

text \<open>Lines 57-85. The first component is the \<open>std::string\<close> the C++ function returns.\<close>

definition readfile :: "lua_State \<Rightarrow> os_state \<Rightarrow> string \<times> lua_State \<times> os_state" where
  "readfile L os =
     (case lua_tostring L 1 of
        (None, L1) \<Rightarrow>
          ([], lua_pushstring (lua_pushnil L1) ''No filename provided'', os)
      | (Some filename, L1) \<Rightarrow>
          (let os1 = ensureWorkspaceDirectory os;
               fullPath = ''workspace/'' @ c_str filename
           in case ifstream_open fullPath os1 of
                (None, os2) \<Rightarrow>
                  ([], lua_pushstring (lua_pushnil L1) ''Failed to open file'', os2)
              | (Some buffer, os2) \<Rightarrow>
                  (buffer, lua_pushstring L1 buffer, os2)))"

text \<open>Lines 89-92: the lambda registered as \<open>readfile\<close>; it returns its result count.\<close>

definition readfile_lambda :: "lua_State \<Rightarrow> os_state \<Rightarrow> int \<times> lua_State \<times> os_state" where
  "readfile_lambda L os = (case readfile L os of (s, L1, os1) \<Rightarrow> (1, L1, os1))"

text \<open>Lines 94-128: the lambda registered as \<open>writefile\<close>.\<close>

definition writefile_lambda :: "lua_State \<Rightarrow> os_state \<Rightarrow> int \<times> lua_State \<times> os_state" where
  "writefile_lambda L os =
     (case lua_tostring L 1 of (filename, L1) \<Rightarrow>
      case lua_tostring L1 2 of (content, L2) \<Rightarrow>
        (case filename of
           None \<Rightarrow> (1, lua_pushboolean L2 0, os)
         | Some fname \<Rightarrow>
             (case content of
                None \<Rightarrow> (1, lua_pushboolean L2 0, os)
              | Some cont \<Rightarrow>
                  (let os1 = ensureWorkspaceDirectory os;
                       fullPath = ''workspace/'' @ c_str fname;
                       os2 = snd (system ''mkdir -p workspace'' os1)
                   in case ofstream_open fullPath os2 of
                        (None, os3) \<Rightarrow> (1, lua_pushboolean L2 0, os3)
                      | (Some file, os3) \<Rightarrow>
                          (1, lua_pushboolean L2 1, ofstream_write file (c_str cont) os3)))))"

text \<open>Lines 88-129.\<close>

definition registerExecutorFunctions :: "lua_State \<Rightarrow> lua_State" where
  "registerExecutorFunctions L =
     lua_register (lua_register L ''readfile'' CF_readfile) ''writefile'' CF_writefile"

text \<open>
  How the interpreter calls a registered C function: the function runs on a stack of its
  own that holds the arguments, and its results are the topmost values of that stack, as
  many as it returns.
\<close>

definition cfunction_body :: "cfunction \<Rightarrow> lua_State \<Rightarrow> os_state \<Rightarrow> int \<times> lua_State \<times> os_state" where
  "cfunction_body f = (case f of CF_readfile \<Rightarrow> readfile_lambda | CF_writefile \<Rightarrow> writefile_lambda)"

definition call_cfunction ::
  "cfunction \<Rightarrow> lua_value list \<Rightarrow> lua_State \<Rightarrow> os_state \<Rightarrow> lua_value list \<times> lua_State \<times> os_state" where
  "call_cfunction f args L os =
     (case cfunction_body f (L\<lparr>stack := args\<rparr>) os of
        (n, L1, os1) \<Rightarrow>
          (drop (length (stack L1) - nat n) (stack L1), L1\<lparr>stack := stack L\<rparr>, os1))"

text \<open>
  \<open>lua_pcall\<close>: the function and its arguments are popped; the results, or the one error
  value, are pushed. With no function below the arguments the call is outside the API's
  contract (\<open>luaL_dostring\<close> calls it on the chunk \<open>luau_load\<close> just pushed).
\<close>

definition lua_pcall ::
  "lua_State \<Rightarrow> os_state \<Rightarrow> nat \<Rightarrow> int \<Rightarrow> int \<Rightarrow> int \<times> lua_State \<times> os_state" where
  "lua_pcall L os nargs nresults errfunc =
     (let n = length (stack L) in
      if n \<le> nargs then (LUA_ERRRUN, L, os)
      else
        (let args = drop (n - nargs) (stack L);
             below = take (n - nargs - 1) (stack L)
         in case stack L ! (n - nargs - 1) of
              LFunction g \<Rightarrow>
                (case call_outcome L g args of
                   Returns vs \<Rightarrow> (0, L\<lparr>stack := below @ adjust_results nresults vs\<rparr>, os)
                 | Raises e \<Rightarrow> (LUA_ERRRUN, L\<lparr>stack := below @ [e]\<rparr>, os))
            | LCFunction f \<Rightarrow>
                (case call_cfunction f args L os of
                   (vs, L1, os1) \<Rightarrow> (0, L1\<lparr>stack := below @ adjust_results nresults vs\<rparr>, os1))
            | v \<Rightarrow> (LUA_ERRRUN, L\<lparr>stack := below @ [LString ''attempt to call a non-function value'']\<rparr>, os)))"

text \<open>Lines 20-25. \<open>str\<close> is a \<open>const char*\<close>; \<open>strlen\<close> is the length of its C string.\<close>

definition luaL_dostring :: "lua_State \<Rightarrow> os_state \<Rightarrow> string \<Rightarrow> int \<times> lua_State \<times> os_state" where
  "luaL_dostring L os str =
     (case luau_load L ''string'' str (length (c_str str)) 0 of
        (r, L1) \<Rightarrow>
          if r \<noteq> 0 then (1, L1, os)
          else lua_pcall L1 os 0 LUA_MULTRET 0)"

text \<open>
  What stops the library: a \<open>std::string\<close> constructed from a null pointer, and a
  negative stack index on an empty stack, which the C API does not define.
\<close>

datatype fault = NullString | BadIndex

text \<open>Lines 132-150.\<close>

definition executeMainLuau ::
  "lua_State \<Rightarrow> os_state \<Rightarrow> string \<Rightarrow> fault + (bool \<times> lua_State \<times> os_state)" where
  "executeMainLuau L os script =
     (case luaL_dostring L os (c_str script) of
        (r, L1, os1) \<Rightarrow>
          if r \<noteq> 0 then
            (case lua_tostring L1 (- 1) of
               (None, L2) \<Rightarrow> Inl NullString
             | (Some errorMsg, L2) \<Rightarrow>
                 Inr (False, lua_pop L2 1,
                      os1\<lparr>cerr := cerr os1 @ [Message (''Failed to execute script: '' @ c_str errorMsg)]\<rparr>))
          else if stack L1 = [] then Inl BadIndex
          else if lua_isfunction L1 (- 1) then Inr (True, L1, os1)
          else
            Inr (False, lua_pop L1 1,
                 os1\<lparr>cerr := cerr os1 @ [Message ''Script did not return a function'']\<rparr>))"

text \<open>Lines 153-160. \<open>functionRef\<close> is a local of the function; \<open>L\<close> is what it returns.\<close>

definition hookPlayerAddedEvent :: "lua_State \<Rightarrow> fault + lua_State" where
  "hookPlayerAddedEvent L =
     (if stack L = [] then Inl BadIndex
      else
        (case luaL_ref (lua_pushvalue L (- 1)) LUA_REGISTRYINDEX of
           (functionRef, L1) \<Rightarrow> Inr L1))"

text \<open>Lines 206-221.\<close>

definition luaopen_mylibrary :: "lua_State \<Rightarrow> os_state \<Rightarrow> fault + (int \<times> lua_State \<times> os_state)" where
  "luaopen_mylibrary L os =
     (let os1 = ensureWorkspaceDirectory os;
          L1 = registerExecutorFunctions L
      in case executeMainLuau L1 os1 mainLuauScript of
           Inl f \<Rightarrow> Inl f
         | Inr (ok, L2, os2) \<Rightarrow>
             (if ok then
                (case hookPlayerAddedEvent L2 of
                   Inl f \<Rightarrow> Inl f
                 | Inr L3 \<Rightarrow> Inr (1, L3, os2))
              else Inr (1, L2, os2)))"

subsection \<open>The spec's Workspace Manager\<close>

text \<open>
  Section 4.1 of the spec, in its words, to compare \<open>ensureWorkspaceDirectory\<close> with:
  \<open>ensure()\<close> succeeds silently if the directory already exists, creates it if it is
  missing, and fails with \<open>WorkspaceUnavailable\<close> if the path exists as a non-directory
  or cannot be created.
\<close>

datatype ws_error = WorkspaceUnavailable

definition ensure_spec :: "os_state \<Rightarrow> ws_error + os_state" where
  "ensure_spec os =
     (case nodes os (cwd os @ [''workspace'']) of
        Some Dir \<Rightarrow> Inr os
      | Some (File b) \<Rightarrow> Inl WorkspaceUnavailable
      | None \<Rightarrow>
          (if nodes os (cwd os) = Some Dir
           then Inr (os\<lparr>nodes := (nodes os)(cwd os @ [''workspace''] \<mapsto> Dir)\<rparr>)
           else Inl WorkspaceUnavailable))"

subsection \<open>Concrete states\<close>

text \<open>
  \<open>os_fresh\<close>: an empty working directory on a device with room. \<open>os_blocked\<close>: the
  same, with a regular file named \<open>workspace\<close> in it. \<open>L_entry\<close>: the state in which
  \<open>require\<close> calls the library (the library's name on the stack), on an interpreter
  that compiles every source and whose chunks return one closure.
\<close>

definition os_fresh :: os_state where
  "os_fresh = \<lparr>cwd = [], nodes = [[] \<mapsto> Dir], free_space = 1024, calls = [], cerr = []\<rparr>"

definition os_blocked :: os_state where
  "os_blocked =
     \<lparr>cwd = [], nodes = [[] \<mapsto> Dir, [''workspace''] \<mapsto> File ''x''], free_space = 1024,
      calls = [], cerr = []\<rparr>"

definition L_entry :: lua_State where
  "L_entry =
     \<lparr>stack = [LString ''mylibrary''], globals = Map.empty, registry = [],
      load_error = (\<lambda>s. None), call_outcome = (\<lambda>g args. Returns [LFunction (Closure 0)])\<rparr>"

section \<open>Properties\<close>

subsection \<open>C strings and the interpreter\<close>

lemma c_str_idem: "c_str (c_str s) = c_str s"
  by (simp add: c_str_def)

lemma c_str_id: "CHR 0x00 \<notin> set s \<Longrightarrow> c_str s = s"
  by (auto simp: c_str_def)

lemma index2value_top: "stack L = xs @ [v] \<Longrightarrow> index2value L (- 1) = Some v"
  by (simp add: index2value_def nth_append)

lemma index2value_top_upd [simp]: "index2value (L\<lparr>stack := xs @ [v]\<rparr>) (- 1) = Some v"
  by (simp add: index2value_top)

lemma index2value_top_upd2 [simp]: "index2value (L\<lparr>stack := xs @ ys @ [v]\<rparr>) (- 1) = Some v"
  by (rule index2value_top [of _ "xs @ ys"]) simp

lemma lua_tostring_1 [simp]:
  "lua_tostring (L\<lparr>stack := LString s # rest\<rparr>) 1 = (Some s, L\<lparr>stack := LString s # rest\<rparr>)"
  by (simp add: lua_tostring_def index2value_def)

lemma lua_tostring_2 [simp]:
  "lua_tostring (L\<lparr>stack := v # LString s # rest\<rparr>) 2 = (Some s, L\<lparr>stack := v # LString s # rest\<rparr>)"
  by (simp add: lua_tostring_def index2value_def)

lemma reg_load [simp]: "load_error (registerExecutorFunctions L) = load_error L"
  and reg_call [simp]: "call_outcome (registerExecutorFunctions L) = call_outcome L"
  and reg_stack [simp]: "stack (registerExecutorFunctions L) = stack L"
  and reg_registry [simp]: "registry (registerExecutorFunctions L) = registry L"
  by (simp_all add: registerExecutorFunctions_def lua_register_def)

lemma reg_globals:
  "globals (registerExecutorFunctions L) ''readfile'' = Some (LCFunction CF_readfile)"
  "globals (registerExecutorFunctions L) ''writefile'' = Some (LCFunction CF_writefile)"
  by (simp_all add: registerExecutorFunctions_def lua_register_def)

subsection \<open>The handler hook\<close>

text \<open>
  C10. \<open>hookPlayerAddedEvent\<close>, called with a value on top of the stack, leaves the stack
  as it found it: the duplicate it pushes is the one \<open>luaL_ref\<close> pops, so the depth and
  every slot, the value at the top included, are unchanged.
\<close>

theorem hookPlayerAddedEvent_stack:
  "stack L \<noteq> [] \<Longrightarrow> \<exists>L'. hookPlayerAddedEvent L = Inr L' \<and> stack L' = stack L"
  by (cases "stack L" rule: rev_cases)
     (auto simp: hookPlayerAddedEvent_def lua_pushvalue_def luaL_ref_def index2value_def Let_def
        split: prod.splits)

text \<open>The hook in the state \<open>require\<close> leaves: one value on the stack.\<close>

theorem hookPlayerAddedEvent_stack_witness:
  "stack L_entry \<noteq> [] \<and>
   (\<exists>L'. hookPlayerAddedEvent L_entry = Inr L' \<and> stack L' = [LString ''mylibrary''])"
proof -
  have h: "stack L_entry \<noteq> []" by (simp add: L_entry_def)
  from hookPlayerAddedEvent_stack [OF h] h show ?thesis by (simp add: L_entry_def)
qed

subsection \<open>Running the bootstrap\<close>

lemma luaL_dostring_load_error:
  "load_error L (c_str s) = Some msg \<Longrightarrow>
   luaL_dostring L os (c_str s) = (1, L\<lparr>stack := stack L @ [LString msg]\<rparr>, os)"
  by (simp add: luaL_dostring_def luau_load_def c_str_idem)

lemma luaL_dostring_call:
  "load_error L (c_str s) = None \<Longrightarrow>
   luaL_dostring L os (c_str s) =
     (case call_outcome L (Chunk (c_str s)) [] of
        Returns vs \<Rightarrow> (0, L\<lparr>stack := stack L @ vs\<rparr>, os)
      | Raises e \<Rightarrow> (2, L\<lparr>stack := stack L @ [e]\<rparr>, os))"
  by (simp add: luaL_dostring_def luau_load_def c_str_idem lua_pcall_def Let_def adjust_results_def
      LUA_MULTRET_def LUA_ERRRUN_def split: call_result.splits)

lemma executeMainLuau_load_error:
  "load_error L (c_str s) = Some msg \<Longrightarrow>
   executeMainLuau L os s =
     Inr (False, L, os\<lparr>cerr := cerr os @ [Message (''Failed to execute script: '' @ c_str msg)]\<rparr>)"
  by (simp add: executeMainLuau_def luaL_dostring_load_error lua_tostring_def lua_pop_def)

lemma executeMainLuau_raises:
  "load_error L (c_str s) = None \<Longrightarrow> call_outcome L (Chunk (c_str s)) [] = Raises e \<Longrightarrow>
   executeMainLuau L os s =
     (case e of
        LString m \<Rightarrow>
          Inr (False, L, os\<lparr>cerr := cerr os @ [Message (''Failed to execute script: '' @ c_str m)]\<rparr>)
      | LNumber m \<Rightarrow>
          Inr (False, L, os\<lparr>cerr := cerr os @ [Message (''Failed to execute script: '' @ c_str m)]\<rparr>)
      | _ \<Rightarrow> Inl NullString)"
  by (simp add: executeMainLuau_def luaL_dostring_call lua_tostring_def abs_index_def lua_pop_def
      split: lua_value.splits)

lemma executeMainLuau_returns:
  "load_error L (c_str s) = None \<Longrightarrow>
   call_outcome L (Chunk (c_str s)) [] = Returns (vs @ [v]) \<Longrightarrow>
   executeMainLuau L os s =
     (case v of
        LFunction g \<Rightarrow> Inr (True, L\<lparr>stack := stack L @ vs @ [v]\<rparr>, os)
      | LCFunction f \<Rightarrow> Inr (True, L\<lparr>stack := stack L @ vs @ [v]\<rparr>, os)
      | _ \<Rightarrow>
          Inr (False, L\<lparr>stack := stack L @ vs\<rparr>,
               os\<lparr>cerr := cerr os @ [Message ''Script did not return a function'']\<rparr>))"
  by (simp add: executeMainLuau_def luaL_dostring_call lua_isfunction_def lua_pop_def
      split: lua_value.splits)

text \<open>
  What holds of a failed bootstrap: when the script does not compile, raises an error
  whose value has a text, or returns values the last of which is no function, the load
  returns 1, both host functions are globals and the registry is as before.
\<close>

lemma luaopen_mylibrary_failed_bootstrap:
  assumes "load_error L (c_str mainLuauScript) = Some msg
         \<or> load_error L (c_str mainLuauScript) = None \<and>
           (\<exists>e. call_outcome L (Chunk (c_str mainLuauScript)) [] = Raises e \<and> is_text e)
         \<or> load_error L (c_str mainLuauScript) = None \<and>
           (\<exists>vs v. call_outcome L (Chunk (c_str mainLuauScript)) [] = Returns (vs @ [v]) \<and>
              v \<notin> range LFunction \<and> v \<notin> range LCFunction)"
  shows "\<exists>L' os'. luaopen_mylibrary L os = Inr (1, L', os')
           \<and> globals L' ''readfile'' = Some (LCFunction CF_readfile)
           \<and> globals L' ''writefile'' = Some (LCFunction CF_writefile)
           \<and> registry L' = registry L"
  using assms
proof (elim disjE conjE exE)
  assume "load_error L (c_str mainLuauScript) = Some msg"
  then show ?thesis
    by (simp add: luaopen_mylibrary_def executeMainLuau_load_error reg_globals Let_def)
next
  fix e
  assume "load_error L (c_str mainLuauScript) = None"
    "call_outcome L (Chunk (c_str mainLuauScript)) [] = Raises e" "is_text e"
  then show ?thesis
    using executeMainLuau_raises [of "registerExecutorFunctions L" mainLuauScript e]
    by (auto simp add: luaopen_mylibrary_def is_text_def reg_globals Let_def split: lua_value.splits)
next
  fix vs v
  assume "load_error L (c_str mainLuauScript) = None"
    "call_outcome L (Chunk (c_str mainLuauScript)) [] = Returns (vs @ [v])"
    "v \<notin> range LFunction" "v \<notin> range LCFunction"
  then show ?thesis
    using executeMainLuau_returns [of "registerExecutorFunctions L" mainLuauScript vs v]
    by (auto simp add: luaopen_mylibrary_def reg_globals Let_def split: lua_value.splits)
qed

text \<open>
  C5, where the code departs from it. When the bootstrap raises an error whose value is
  neither a string nor a number, \<open>lua_tostring\<close> returns \<open>NULL\<close> and line 136 constructs
  a \<open>std::string\<close> from it: the load does not return.
\<close>

theorem luaopen_mylibrary_null_error_message:
  assumes "load_error L (c_str mainLuauScript) = None"
    and "call_outcome L (Chunk (c_str mainLuauScript)) [] = Raises e"
    and "\<not> is_text e"
  shows "luaopen_mylibrary L os = Inl NullString"
  using assms executeMainLuau_raises [of "registerExecutorFunctions L" mainLuauScript e]
  by (simp add: luaopen_mylibrary_def is_text_def Let_def split: lua_value.splits)

text \<open>A bootstrap that raises a table.\<close>

theorem luaopen_mylibrary_null_error_message_witness:
  "load_error (L_entry\<lparr>call_outcome := \<lambda>g args. Raises (LTable 0)\<rparr>) (c_str mainLuauScript) = None
   \<and> \<not> is_text (LTable 0)
   \<and> luaopen_mylibrary (L_entry\<lparr>call_outcome := \<lambda>g args. Raises (LTable 0)\<rparr>) os_fresh = Inl NullString"
proof -
  let ?L = "L_entry\<lparr>call_outcome := \<lambda>g args. Raises (LTable 0)\<rparr>"
  have a: "load_error ?L (c_str mainLuauScript) = None" by (simp add: L_entry_def)
  have b: "call_outcome ?L (Chunk (c_str mainLuauScript)) [] = Raises (LTable 0)" by simp
  have c: "\<not> is_text (LTable 0)" by (simp add: is_text_def)
  from luaopen_mylibrary_null_error_message [OF a b c] a c show ?thesis by simp
qed

text \<open>
  C3, where the code departs from it. When the bundled script does not compile, the load
  returns 1 and leaves the stack as it was on entry: the depth is the depth on entry, not
  the depth on entry plus the count returned.
\<close>

theorem luaopen_mylibrary_failure_depth:
  assumes "load_error L (c_str mainLuauScript) = Some msg"
  shows "\<exists>n L' os'. luaopen_mylibrary L os = Inr (n, L', os') \<and> n = 1 \<and> stack L' = stack L
           \<and> int (length (stack L')) \<noteq> int (length (stack L)) + n"
  using assms by (simp add: luaopen_mylibrary_def executeMainLuau_load_error Let_def)

text \<open>An interpreter that rejects the source, entered with one value on the stack.\<close>

theorem luaopen_mylibrary_failure_depth_witness:
  "load_error (L_entry\<lparr>load_error := \<lambda>s. Some ''syntax error''\<rparr>) (c_str mainLuauScript)
     = Some ''syntax error''
   \<and> (\<exists>L' os'. luaopen_mylibrary (L_entry\<lparr>load_error := \<lambda>s. Some ''syntax error''\<rparr>) os_fresh
          = Inr (1, L', os') \<and> length (stack L') = 1)"
proof -
  let ?L = "L_entry\<lparr>load_error := \<lambda>s. Some ''syntax error''\<rparr>"
  have a: "load_error ?L (c_str mainLuauScript) = Some ''syntax error''" by simp
  have "stack ?L = [LString ''mylibrary'']" by (simp add: L_entry_def)
  with luaopen_mylibrary_failure_depth [OF a, of os_fresh] a show ?thesis by auto
qed

text \<open>The depth after a bootstrap that returns one function: one more than on entry.\<close>

lemma luaopen_mylibrary_success_depth:
  assumes "load_error L (c_str mainLuauScript) = None"
    and "call_outcome L (Chunk (c_str mainLuauScript)) [] = Returns [LFunction g]"
  shows "\<exists>L' os'. luaopen_mylibrary L os = Inr (1, L', os') \<and> length (stack L') = length (stack L) + 1"
  using assms executeMainLuau_returns [of "registerExecutorFunctions L" mainLuauScript "[]" "LFunction g"]
  by (simp add: luaopen_mylibrary_def hookPlayerAddedEvent_def Let_def lua_pushvalue_def luaL_ref_def)

text \<open>
  C1, where the code departs from it. After a load whose bootstrap returns a function,
  the function is in the registry under a fresh key and still on the stack; the load's
  results are the count 1 and the two states. The key is the local \<open>functionRef\<close> of
  \<open>hookPlayerAddedEvent\<close>, which no result and no variable of the library keeps.
\<close>

theorem luaopen_mylibrary_adopts:
  assumes "load_error L (c_str mainLuauScript) = None"
    and "call_outcome L (Chunk (c_str mainLuauScript)) [] = Returns [LFunction g]"
  shows "\<exists>L' os'. luaopen_mylibrary L os = Inr (1, L', os')
           \<and> registry L' = (fresh_ref (registry L), LFunction g) # registry L
           \<and> stack L' = stack L @ [LFunction g]"
  using assms executeMainLuau_returns [of "registerExecutorFunctions L" mainLuauScript "[]" "LFunction g"]
  by (simp add: luaopen_mylibrary_def hookPlayerAddedEvent_def Let_def lua_pushvalue_def luaL_ref_def)

text \<open>The load from \<open>require\<close>: the closure goes into the empty registry under key 1.\<close>

theorem luaopen_mylibrary_adopts_witness:
  "load_error L_entry (c_str mainLuauScript) = None
   \<and> call_outcome L_entry (Chunk (c_str mainLuauScript)) [] = Returns [LFunction (Closure 0)]
   \<and> (\<exists>L' os'. luaopen_mylibrary L_entry os_fresh = Inr (1, L', os')
          \<and> registry L' = [(1, LFunction (Closure 0))]
          \<and> stack L' = [LString ''mylibrary'', LFunction (Closure 0)])"
proof -
  have a: "load_error L_entry (c_str mainLuauScript) = None" by (simp add: L_entry_def)
  have b: "call_outcome L_entry (Chunk (c_str mainLuauScript)) [] = Returns [LFunction (Closure 0)]"
    by (simp add: L_entry_def)
  have c: "registry L_entry = []" "stack L_entry = [LString ''mylibrary'']"
    by (simp_all add: L_entry_def)
  from luaopen_mylibrary_adopts [OF a b, of os_fresh] a b c show ?thesis
    by (simp add: fresh_ref_def)
qed


subsection \<open>The workspace directory\<close>

lemma resolve_workspace:
  "resolve os ''workspace'' =
     (if nodes os (cwd os) = Some Dir then Some (cwd os @ [''workspace'']) else None)"
  by (simp add: resolve_def)

lemma ensure_nodes:
  "nodes (ensureWorkspaceDirectory os) =
     (if nodes os (cwd os) = Some Dir \<and> nodes os (cwd os @ [''workspace'']) = None
      then (nodes os)(cwd os @ [''workspace''] \<mapsto> Dir) else nodes os)"
  by (simp add: ensureWorkspaceDirectory_def system_def mkdir_p_def resolve_workspace Let_def
      split: option.splits node.splits)

lemma ensure_calls:
  "calls (ensureWorkspaceDirectory os) = calls os @ [System ''mkdir -p workspace'']"
  by (simp add: ensureWorkspaceDirectory_def system_def mkdir_p_def resolve_workspace Let_def
      split: option.splits node.splits)

lemma ensure_frame:
  "cwd (ensureWorkspaceDirectory os) = cwd os"
  "free_space (ensureWorkspaceDirectory os) = free_space os"
  by (simp_all add: ensureWorkspaceDirectory_def system_def mkdir_p_def resolve_workspace Let_def
      split: option.splits node.splits)

text \<open>When \<open>mkdir\<close> succeeds: the directory is there, or can be made.\<close>

lemma mkdir_succeeds:
  assumes "nodes os (cwd os) = Some Dir"
    and "nodes os (cwd os @ [''workspace'']) = Some Dir \<or> nodes os (cwd os @ [''workspace'']) = None"
  shows "fst (system ''mkdir -p workspace'' os) = 0"
    and "cerr (ensureWorkspaceDirectory os) = cerr os"
  using assms
  by (auto simp: ensureWorkspaceDirectory_def system_def mkdir_p_def resolve_workspace Let_def)

text \<open>When it fails: the path is a regular file, or the working directory is gone.\<close>

lemma mkdir_fails:
  assumes "nodes os (cwd os @ [''workspace'']) = Some (File b) \<or> nodes os (cwd os) \<noteq> Some Dir"
  shows "fst (system ''mkdir -p workspace'' os) = 256"
    and "cerr (ensureWorkspaceDirectory os) = cerr os @ [Complaint ''mkdir -p workspace'']"
    and "nodes (ensureWorkspaceDirectory os) = nodes os"
    and "ensureWorkspaceDirectory os
           = os\<lparr>calls := calls os @ [System ''mkdir -p workspace''],
                 cerr := cerr os @ [Complaint ''mkdir -p workspace'']\<rparr>"
  using assms
  by (auto simp: ensureWorkspaceDirectory_def system_def mkdir_p_def resolve_workspace Let_def)

lemma ensure_nodes_idem:
  "nodes (ensureWorkspaceDirectory (ensureWorkspaceDirectory os)) = nodes (ensureWorkspaceDirectory os)"
  by (simp add: ensure_nodes ensure_frame)

lemma ensure_nodes_ready:
  "nodes os (cwd os @ [''workspace'']) = Some Dir \<Longrightarrow> nodes (ensureWorkspaceDirectory os) = nodes os"
  by (simp add: ensure_nodes)

lemma ensure_funpow_frame:
  "cwd ((ensureWorkspaceDirectory ^^ n) os) = cwd os"
  "free_space ((ensureWorkspaceDirectory ^^ n) os) = free_space os"
  by (induction n) (simp_all add: ensure_frame)

lemma ensure_funpow_nodes:
  "nodes ((ensureWorkspaceDirectory ^^ Suc n) os) = nodes (ensureWorkspaceDirectory os)"
proof (induction n)
  case 0
  show ?case by simp
next
  case (Suc n)
  have "nodes ((ensureWorkspaceDirectory ^^ Suc (Suc n)) os)
      = nodes (ensureWorkspaceDirectory ((ensureWorkspaceDirectory ^^ Suc n) os))" by simp
  also have "\<dots> = nodes (ensureWorkspaceDirectory os)"
    using Suc ensure_funpow_frame(1) [of "Suc n" os]
    by (simp only: ensure_nodes [of "(ensureWorkspaceDirectory ^^ Suc n) os"]) (simp add: ensure_nodes)
  finally show ?case .
qed

text \<open>
  C8, as the code has it. Any number of calls, one or more, leaves the file system as one
  call does. When \<open>workspace\<close> is a directory the file system is unchanged, and nothing
  is written on the standard error stream. When it is missing in an existing working
  directory it is created, and nothing is written either. When the path is a regular
  file, or the working directory is gone, \<open>mkdir\<close> complains on the standard error
  stream and \<open>system\<close> returns 256; \<open>ensureWorkspaceDirectory\<close>, which is \<open>void\<close>,
  drops that value and hands back the state with nothing changed in it but the log of
  the call and that complaint.
\<close>

theorem ensureWorkspaceDirectory_idempotent:
  "(0 < n \<longrightarrow>
      nodes ((ensureWorkspaceDirectory ^^ n) os) = nodes (ensureWorkspaceDirectory os)
      \<and> free_space ((ensureWorkspaceDirectory ^^ n) os) = free_space (ensureWorkspaceDirectory os)
      \<and> cwd ((ensureWorkspaceDirectory ^^ n) os) = cwd (ensureWorkspaceDirectory os))
   \<and> (nodes os (cwd os @ [''workspace'']) = Some Dir \<longrightarrow>
        nodes (ensureWorkspaceDirectory os) = nodes os)
   \<and> (nodes os (cwd os) = Some Dir \<and> nodes os (cwd os @ [''workspace'']) = Some Dir \<longrightarrow>
        fst (system ''mkdir -p workspace'' os) = 0
        \<and> cerr (ensureWorkspaceDirectory os) = cerr os)
   \<and> (nodes os (cwd os) = Some Dir \<and> nodes os (cwd os @ [''workspace'']) = None \<longrightarrow>
        nodes (ensureWorkspaceDirectory os) = (nodes os)(cwd os @ [''workspace''] \<mapsto> Dir)
        \<and> fst (system ''mkdir -p workspace'' os) = 0
        \<and> cerr (ensureWorkspaceDirectory os) = cerr os)
   \<and> (nodes os (cwd os @ [''workspace'']) = Some (File b) \<longrightarrow>
        nodes (ensureWorkspaceDirectory os) = nodes os
        \<and> fst (system ''mkdir -p workspace'' os) = 256
        \<and> cerr (ensureWorkspaceDirectory os) = cerr os @ [Complaint ''mkdir -p workspace'']
        \<and> ensureWorkspaceDirectory os
            = os\<lparr>calls := calls os @ [System ''mkdir -p workspace''],
                  cerr := cerr os @ [Complaint ''mkdir -p workspace'']\<rparr>)
   \<and> (nodes os (cwd os) \<noteq> Some Dir \<longrightarrow>
        nodes (ensureWorkspaceDirectory os) = nodes os
        \<and> fst (system ''mkdir -p workspace'' os) = 256
        \<and> cerr (ensureWorkspaceDirectory os) = cerr os @ [Complaint ''mkdir -p workspace'']
        \<and> ensureWorkspaceDirectory os
            = os\<lparr>calls := calls os @ [System ''mkdir -p workspace''],
                  cerr := cerr os @ [Complaint ''mkdir -p workspace'']\<rparr>)"
proof -
  have "0 < n \<longrightarrow> nodes ((ensureWorkspaceDirectory ^^ n) os) = nodes (ensureWorkspaceDirectory os)"
    using ensure_funpow_nodes [of "n - 1" os] by (cases n) simp_all
  moreover have "nodes os (cwd os @ [''workspace'']) = Some Dir \<longrightarrow>
      nodes (ensureWorkspaceDirectory os) = nodes os"
    by (simp add: ensure_nodes)
  moreover have "nodes os (cwd os) = Some Dir \<and> nodes os (cwd os @ [''workspace'']) = None \<longrightarrow>
      nodes (ensureWorkspaceDirectory os) = (nodes os)(cwd os @ [''workspace''] \<mapsto> Dir)"
    by (simp add: ensure_nodes)
  ultimately show ?thesis
    using mkdir_succeeds [of os] mkdir_fails [of os b]
    by (simp add: ensure_funpow_frame ensure_frame)
qed

text \<open>
  Three calls in an empty directory, a call where \<open>workspace\<close> is a directory, one where
  it is a regular file, and one where the working directory is gone.
\<close>

theorem ensureWorkspaceDirectory_idempotent_witness:
  "(0 < (3::nat) \<and>
      nodes ((ensureWorkspaceDirectory ^^ 3) os_fresh) = nodes (ensureWorkspaceDirectory os_fresh))
   \<and> (nodes os_fresh (cwd os_fresh) = Some Dir \<and> nodes os_fresh (cwd os_fresh @ [''workspace'']) = None
      \<and> nodes (ensureWorkspaceDirectory os_fresh) [''workspace''] = Some Dir
      \<and> cerr (ensureWorkspaceDirectory os_fresh) = [])
   \<and> (nodes (ensureWorkspaceDirectory os_fresh) (cwd (ensureWorkspaceDirectory os_fresh)) = Some Dir
      \<and> nodes (ensureWorkspaceDirectory os_fresh)
           (cwd (ensureWorkspaceDirectory os_fresh) @ [''workspace'']) = Some Dir
      \<and> nodes (ensureWorkspaceDirectory (ensureWorkspaceDirectory os_fresh))
           = nodes (ensureWorkspaceDirectory os_fresh)
      \<and> cerr (ensureWorkspaceDirectory (ensureWorkspaceDirectory os_fresh)) = [])
   \<and> (nodes os_blocked (cwd os_blocked @ [''workspace'']) = Some (File ''x'')
      \<and> nodes (ensureWorkspaceDirectory os_blocked) = nodes os_blocked
      \<and> fst (system ''mkdir -p workspace'' os_blocked) = 256
      \<and> cerr (ensureWorkspaceDirectory os_blocked) = [Complaint ''mkdir -p workspace''])
   \<and> (nodes (os_fresh\<lparr>nodes := Map.empty\<rparr>) (cwd (os_fresh\<lparr>nodes := Map.empty\<rparr>)) \<noteq> Some Dir
      \<and> nodes (ensureWorkspaceDirectory (os_fresh\<lparr>nodes := Map.empty\<rparr>)) = Map.empty
      \<and> cerr (ensureWorkspaceDirectory (os_fresh\<lparr>nodes := Map.empty\<rparr>))
           = [Complaint ''mkdir -p workspace''])"
proof -
  let ?made = "ensureWorkspaceDirectory os_fresh"
  let ?gone = "os_fresh\<lparr>nodes := Map.empty\<rparr>"
  have a: "nodes os_fresh (cwd os_fresh) = Some Dir \<and> nodes os_fresh (cwd os_fresh @ [''workspace'']) = None"
    by (simp add: os_fresh_def)
  have c: "cwd os_fresh = []" "cerr os_fresh = []"
    by (simp_all add: os_fresh_def)
  have b: "nodes os_blocked (cwd os_blocked @ [''workspace'']) = Some (File ''x'')"
    "cerr os_blocked = []"
    by (simp_all add: os_blocked_def)
  have d: "nodes ?gone (cwd ?gone) \<noteq> Some Dir" "cerr ?gone = []" "nodes ?gone = Map.empty"
    by (simp_all add: os_fresh_def)
  from ensureWorkspaceDirectory_idempotent [where n = 3 and os = os_fresh and b = "''x''"] a c
  have m: "nodes ?made (cwd ?made) = Some Dir \<and> nodes ?made (cwd ?made @ [''workspace'']) = Some Dir"
    "cerr ?made = []"
    by (simp_all add: ensure_frame)
  from ensureWorkspaceDirectory_idempotent [where n = 3 and os = os_fresh and b = "''x''"]
       ensureWorkspaceDirectory_idempotent [where n = 3 and os = ?made and b = "''x''"]
       ensureWorkspaceDirectory_idempotent [where n = 3 and os = os_blocked and b = "''x''"]
       ensureWorkspaceDirectory_idempotent [where n = 3 and os = ?gone and b = "''x''"]
       a b c d m
  show ?thesis by (simp add: ensure_frame)
qed

text \<open>
  C8 as stated fails where \<open>workspace\<close> is a regular file: the spec's \<open>ensure()\<close> fails
  with \<open>WorkspaceUnavailable\<close>; \<open>system\<close> returns 256 and \<open>mkdir\<close> has complained, and
  \<open>ensureWorkspaceDirectory\<close> hands back a state, with the file system as it was, as it
  does after a success.
\<close>

theorem ensure_never_fails_counterexample:
  "ensure_spec os_blocked = Inl WorkspaceUnavailable
   \<and> fst (system ''mkdir -p workspace'' os_blocked) = 256
   \<and> nodes (ensureWorkspaceDirectory os_blocked) = nodes os_blocked
   \<and> cerr (ensureWorkspaceDirectory os_blocked) = [Complaint ''mkdir -p workspace'']
   \<and> ensure_spec os_blocked \<noteq> Inr (ensureWorkspaceDirectory os_blocked)"
  by (simp add: ensure_spec_def os_blocked_def ensureWorkspaceDirectory_def system_def mkdir_p_def
      resolve_def Let_def)

subsection \<open>Paths\<close>

lemma split_path_nonempty: "split_path p \<noteq> []"
  by (induction p) (auto split: list.splits)

lemma resolve_in_workspace:
  "resolve os (''workspace/'' @ p) =
     (if nodes os (cwd os) = Some Dir
      then walk (nodes os) (cwd os @ [''workspace'']) (split_path p) else None)"
  by (simp add: resolve_def)

lemma walk_cong:
  "(\<And>k. (ns k = Some Dir) = (ns' k = Some Dir)) \<Longrightarrow> walk ns cur cs = walk ns' cur cs"
  by (induction cs arbitrary: cur) simp_all

lemma walk_start_dir: "walk ns cur cs = Some k \<Longrightarrow> cs \<noteq> [] \<Longrightarrow> ns cur = Some Dir"
  by (cases cs) (simp_all split: if_splits)

lemma resolve_cong:
  "cwd os' = cwd os \<Longrightarrow> (\<And>k. (nodes os' k = Some Dir) = (nodes os k = Some Dir)) \<Longrightarrow>
   resolve os' p = resolve os p"
  unfolding resolve_def by (simp add: walk_cong [of "nodes os'" "nodes os"])

lemma resolve_workspace_dirs:
  assumes "resolve os (''workspace/'' @ p) = Some k"
  shows "nodes os (cwd os) = Some Dir" and "nodes os (cwd os @ [''workspace'']) = Some Dir"
proof -
  show c: "nodes os (cwd os) = Some Dir"
    using assms unfolding resolve_in_workspace by (simp split: if_splits)
  with assms have "walk (nodes os) (cwd os @ [''workspace'']) (split_path p) = Some k"
    unfolding resolve_in_workspace by simp
  then show "nodes os (cwd os @ [''workspace'']) = Some Dir"
    by (rule walk_start_dir) (rule split_path_nonempty)
qed

lemma split_path_plain: "CHR ''/'' \<notin> set p \<Longrightarrow> split_path p = [p]"
  by (induction p) auto

lemma c_str_plain: "CHR ''/'' \<notin> set p \<Longrightarrow> CHR ''/'' \<notin> set (c_str p)"
  unfolding c_str_def by (auto dest: set_takeWhileD)

text \<open>A name without a separator that resolves to something other than a directory
  names an entry of the workspace directory.\<close>

lemma resolve_plain_name:
  assumes "CHR ''/'' \<notin> set p" and "resolve os (''workspace/'' @ p) = Some k"
    and "nodes os k \<noteq> Some Dir"
  shows "k = cwd os @ [''workspace'', p]"
proof -
  have c: "nodes os (cwd os) = Some Dir" and w: "nodes os (cwd os @ [''workspace'']) = Some Dir"
    using resolve_workspace_dirs [OF assms(2)] by simp_all
  from assms(2) c have "walk (nodes os) (cwd os @ [''workspace'']) [p] = Some k"
    unfolding resolve_in_workspace by (simp add: split_path_plain [OF assms(1)])
  with w c assms(3) show ?thesis
    by (auto split: if_splits)
qed

lemma ofstream_open_Some:
  "ofstream_open p os = (Some k, os') \<Longrightarrow>
     resolve os p = Some k \<and> nodes os k \<noteq> Some Dir \<and>
     os' = os\<lparr>calls := calls os @ [OfstreamOpen p], nodes := (nodes os)(k \<mapsto> File [])\<rparr>"
  by (auto simp: ofstream_open_def Let_def split: option.splits node.splits if_splits)

lemma ofstream_open_None:
  "ofstream_open p os = (None, os') \<Longrightarrow> os' = os\<lparr>calls := calls os @ [OfstreamOpen p]\<rparr>"
  by (auto simp: ofstream_open_def Let_def split: option.splits node.splits if_splits)

lemma ofstream_open_calls:
  "calls (snd (ofstream_open p os)) = calls os @ [OfstreamOpen p]"
  by (auto simp: ofstream_open_def Let_def split: option.splits node.splits if_splits)

lemma ifstream_open_calls:
  "calls (snd (ifstream_open p os)) = calls os @ [IfstreamOpen p]"
  by (auto simp: ifstream_open_def Let_def split: option.splits node.splits if_splits)

subsection \<open>readfile and writefile\<close>

lemma writefile_lambda_strings:
  "writefile_lambda (L\<lparr>stack := LString name # LString content # rest\<rparr>) os =
     (case ofstream_open (''workspace/'' @ c_str name)
             (ensureWorkspaceDirectory (ensureWorkspaceDirectory os)) of
        (None, os3) \<Rightarrow>
          (1, L\<lparr>stack := LString name # LString content # rest @ [LBoolean False]\<rparr>, os3)
      | (Some file, os3) \<Rightarrow>
          (1, L\<lparr>stack := LString name # LString content # rest @ [LBoolean True]\<rparr>,
           ofstream_write file (c_str content) os3))"
  by (simp add: writefile_lambda_def Let_def lua_pushboolean_def ensureWorkspaceDirectory_def
      split: prod.splits option.splits)

lemma call_writefile_strings:
  "call_cfunction CF_writefile [LString name, LString content] L os =
     (case ofstream_open (''workspace/'' @ c_str name)
             (ensureWorkspaceDirectory (ensureWorkspaceDirectory os)) of
        (None, os3) \<Rightarrow> ([LBoolean False], L, os3)
      | (Some file, os3) \<Rightarrow> ([LBoolean True], L, ofstream_write file (c_str content) os3))"
  by (simp add: call_cfunction_def cfunction_body_def writefile_lambda_strings
      split: prod.splits option.splits)

lemma readfile_string:
  "readfile (L\<lparr>stack := LString name # rest\<rparr>) os =
     (case ifstream_open (''workspace/'' @ c_str name) (ensureWorkspaceDirectory os) of
        (None, os2) \<Rightarrow>
          ([], L\<lparr>stack := LString name # rest @ [LNil, LString ''Failed to open file'']\<rparr>, os2)
      | (Some buffer, os2) \<Rightarrow>
          (buffer, L\<lparr>stack := LString name # rest @ [LString (c_str buffer)]\<rparr>, os2))"
  by (simp add: readfile_def Let_def lua_pushnil_def lua_pushstring_def c_str_def
      split: prod.splits option.splits)

lemma call_readfile_string:
  "call_cfunction CF_readfile [LString name] L os =
     (case ifstream_open (''workspace/'' @ c_str name) (ensureWorkspaceDirectory os) of
        (None, os2) \<Rightarrow> ([LString ''Failed to open file''], L, os2)
      | (Some buffer, os2) \<Rightarrow> ([LString (c_str buffer)], L, os2))"
  by (simp add: call_cfunction_def cfunction_body_def readfile_lambda_def readfile_string
      split: prod.splits option.splits)

lemma writefile_opened_file:
  assumes "ofstream_open (''workspace/'' @ c_str name)
             (ensureWorkspaceDirectory (ensureWorkspaceDirectory os)) = (Some k, os3)"
  shows "resolve (ofstream_write k (c_str content) os3) (''workspace/'' @ c_str name) = Some k"
    and "nodes (ofstream_write k (c_str content) os3) k
           = Some (File (take (free_space os) (c_str content)))"
proof -
  let ?os2 = "ensureWorkspaceDirectory (ensureWorkspaceDirectory os)"
  let ?p = "''workspace/'' @ c_str name"
  let ?os' = "ofstream_write k (c_str content) os3"
  from ofstream_open_Some [OF assms]
  have r: "resolve ?os2 ?p = Some k" and nd: "nodes ?os2 k \<noteq> Some Dir"
    and os3: "os3 = ?os2\<lparr>calls := calls ?os2 @ [OfstreamOpen ?p], nodes := (nodes ?os2)(k \<mapsto> File [])\<rparr>"
    by simp_all
  have n': "nodes ?os' = (nodes ?os2)(k \<mapsto> File (take (free_space os) (c_str content)))"
    by (simp add: os3 ofstream_write_def Let_def ensure_frame)
  then show "nodes ?os' k = Some (File (take (free_space os) (c_str content)))"
    by simp
  have "cwd ?os' = cwd ?os2"
    by (simp add: os3 ofstream_write_def Let_def)
  moreover have "\<And>j. (nodes ?os' j = Some Dir) = (nodes ?os2 j = Some Dir)"
    using nd by (simp add: n')
  ultimately have "resolve ?os' ?p = resolve ?os2 ?p"
    by (rule resolve_cong)
  with r show "resolve ?os' ?p = Some k" by simp
qed

lemma writefile_true_file:
  assumes "fst (call_cfunction CF_writefile [LString name, LString content] L os) = [LBoolean True]"
  shows "\<exists>k. resolve (snd (snd (call_cfunction CF_writefile [LString name, LString content] L os)))
                (''workspace/'' @ c_str name) = Some k \<and>
             nodes (snd (snd (call_cfunction CF_writefile [LString name, LString content] L os))) k
               = Some (File (take (free_space os) (c_str content)))"
proof -
  let ?os2 = "ensureWorkspaceDirectory (ensureWorkspaceDirectory os)"
  let ?p = "''workspace/'' @ c_str name"
  from assms obtain k os3 where op: "ofstream_open ?p ?os2 = (Some k, os3)"
    by (auto simp: call_writefile_strings split: prod.splits option.splits)
  then have "snd (snd (call_cfunction CF_writefile [LString name, LString content] L os))
               = ofstream_write k (c_str content) os3"
    by (simp add: call_writefile_strings)
  with writefile_opened_file [OF op, of content] show ?thesis by auto
qed

lemma writefile_true_entry:
  assumes "fst (call_cfunction CF_writefile [LString name, LString content] L os) = [LBoolean True]"
    and "CHR ''/'' \<notin> set name"
  shows "nodes (snd (snd (call_cfunction CF_writefile [LString name, LString content] L os)))
           (cwd os @ [''workspace'', c_str name])
         = Some (File (take (free_space os) (c_str content)))"
proof -
  let ?os2 = "ensureWorkspaceDirectory (ensureWorkspaceDirectory os)"
  let ?p = "''workspace/'' @ c_str name"
  from assms(1) obtain k os3 where op: "ofstream_open ?p ?os2 = (Some k, os3)"
    by (auto simp: call_writefile_strings split: prod.splits option.splits)
  then have os1: "snd (snd (call_cfunction CF_writefile [LString name, LString content] L os))
               = ofstream_write k (c_str content) os3"
    by (simp add: call_writefile_strings)
  from ofstream_open_Some [OF op]
  have "resolve ?os2 ?p = Some k" and "nodes ?os2 k \<noteq> Some Dir"
    by simp_all
  with c_str_plain [OF assms(2)] have "k = cwd ?os2 @ [''workspace'', c_str name]"
    by (rule resolve_plain_name)
  then have "k = cwd os @ [''workspace'', c_str name]"
    by (simp add: ensure_frame)
  with writefile_opened_file(2) [OF op, of content] os1 show ?thesis
    by simp
qed

lemma readfile_after_file:
  assumes "resolve os (''workspace/'' @ c_str name) = Some k" and "nodes os k = Some (File b)"
  shows "fst (call_cfunction CF_readfile [LString name] L os) = [LString (c_str b)]"
proof -
  have n: "nodes (ensureWorkspaceDirectory os) = nodes os"
    using resolve_workspace_dirs(2) [OF assms(1)] by (rule ensure_nodes_ready)
  have "resolve (ensureWorkspaceDirectory os) (''workspace/'' @ c_str name) = Some k"
    using assms(1) by (simp add: resolve_def n ensure_frame)
  then show ?thesis
    using assms(2) by (simp add: call_readfile_string ifstream_open_def Let_def n)
qed


lemma ofstream_write_calls: "calls (ofstream_write k b os) = calls os"
  by (simp add: ofstream_write_def Let_def)

lemmas run_defs =
  call_cfunction_def cfunction_body_def writefile_lambda_def readfile_lambda_def readfile_def
  lua_tostring_def index2value_def abs_index_def lua_pushboolean_def lua_pushstring_def
  lua_pushnil_def ensureWorkspaceDirectory_def system_def mkdir_p_def resolve_def
  ofstream_open_def ofstream_write_def ifstream_open_def c_str_def Let_def

text \<open>
  C2, where the code departs from it. The lambda registered as \<open>readfile\<close> returns 1
  whatever \<open>readfile\<close> pushed (line 91), so a failing call hands the script one value,
  the error string on top of the stack, and the nil below it is not a result.
\<close>

theorem readfile_failure_results:
  "fst (call_cfunction CF_readfile [] L os) = [LString ''No filename provided'']
   \<and> (fst (ifstream_open (''workspace/'' @ c_str name) (ensureWorkspaceDirectory os)) = None \<longrightarrow>
        fst (call_cfunction CF_readfile [LString name] L os) = [LString ''Failed to open file''])"
proof -
  have "fst (call_cfunction CF_readfile [] L os) = [LString ''No filename provided'']"
    by (simp add: call_cfunction_def cfunction_body_def readfile_lambda_def readfile_def
        lua_tostring_def index2value_def lua_pushnil_def lua_pushstring_def c_str_def)
  then show ?thesis
    by (auto simp: call_readfile_string split: prod.splits)
qed

text \<open>\<open>readfile("nope")\<close> in an empty directory.\<close>

theorem readfile_failure_results_witness:
  "fst (ifstream_open (''workspace/'' @ c_str ''nope'') (ensureWorkspaceDirectory os_fresh)) = None
   \<and> fst (call_cfunction CF_readfile [LString ''nope''] L_entry os_fresh) = [LString ''Failed to open file'']"
proof -
  have a: "fst (ifstream_open (''workspace/'' @ c_str ''nope'') (ensureWorkspaceDirectory os_fresh)) = None"
    by (simp add: run_defs os_fresh_def)
  from readfile_failure_results [where L = L_entry and os = os_fresh and name = "''nope''"] a
  show ?thesis by simp
qed

lemma readfile_no_text:
  "\<not> lua_isstring (L\<lparr>stack := args\<rparr>) 1 \<Longrightarrow>
   readfile (L\<lparr>stack := args\<rparr>) os
     = ([], L\<lparr>stack := args @ [LNil, LString ''No filename provided'']\<rparr>, os)"
  by (cases args)
     (auto simp: readfile_def lua_isstring_def is_text_def lua_tostring_def index2value_def
        lua_pushnil_def lua_pushstring_def c_str_def split: lua_value.splits)

lemma writefile_no_text:
  assumes "\<not> lua_isstring (L\<lparr>stack := args\<rparr>) 1 \<or> \<not> lua_isstring (L\<lparr>stack := args\<rparr>) 2"
  shows "call_cfunction CF_writefile args L os = ([LBoolean False], L, os)"
proof (cases args)
  case Nil
  then show ?thesis
    by (simp add: call_cfunction_def cfunction_body_def writefile_lambda_def lua_tostring_def
        index2value_def lua_pushboolean_def)
next
  case outer: (Cons a rest)
  show ?thesis
  proof (cases rest)
    case Nil
    with outer show ?thesis
      by (simp add: call_cfunction_def cfunction_body_def writefile_lambda_def lua_tostring_def
          index2value_def abs_index_def lua_pushboolean_def split: lua_value.splits)
  next
    case (Cons b more)
    with outer assms show ?thesis
      by (auto simp: call_cfunction_def cfunction_body_def writefile_lambda_def lua_tostring_def
          lua_isstring_def is_text_def index2value_def abs_index_def lua_pushboolean_def
          split: lua_value.splits)
  qed
qed

text \<open>
  C6, as the code has it. \<open>lua_tostring\<close> has a text for strings and for numbers. When
  the first argument of \<open>readfile\<close> is missing or is neither, nil and
  \<open>No filename provided\<close> are pushed and the system is not called. When either argument
  of \<open>writefile\<close> is missing or is neither, the call returns boolean false and the system is
  not called.
\<close>

theorem missing_argument_handling:
  "(\<not> lua_isstring (L\<lparr>stack := args\<rparr>) 1 \<longrightarrow>
      snd (readfile (L\<lparr>stack := args\<rparr>) os)
        = (L\<lparr>stack := args @ [LNil, LString ''No filename provided'']\<rparr>, os))
   \<and> (\<not> lua_isstring (L\<lparr>stack := args\<rparr>) 1 \<or> \<not> lua_isstring (L\<lparr>stack := args\<rparr>) 2 \<longrightarrow>
      call_cfunction CF_writefile args L os = ([LBoolean False], L, os))"
  by (simp add: readfile_no_text writefile_no_text)

text \<open>Both functions called with \<open>true\<close> as the only argument.\<close>

theorem missing_argument_handling_witness:
  "\<not> lua_isstring (L_entry\<lparr>stack := [LBoolean True]\<rparr>) 1
   \<and> snd (readfile (L_entry\<lparr>stack := [LBoolean True]\<rparr>) os_fresh)
       = (L_entry\<lparr>stack := [LBoolean True, LNil, LString ''No filename provided'']\<rparr>, os_fresh)
   \<and> call_cfunction CF_writefile [LBoolean True] L_entry os_fresh = ([LBoolean False], L_entry, os_fresh)"
proof -
  have a: "\<not> lua_isstring (L_entry\<lparr>stack := [LBoolean True]\<rparr>) 1"
    by (simp add: lua_isstring_def index2value_def is_text_def)
  from missing_argument_handling [where L = L_entry and args = "[LBoolean True]" and os = os_fresh] a
  show ?thesis by simp
qed

text \<open>
  C6 as stated fails for numbers, which are not strings: \<open>writefile(1, 2)\<close> returns true
  and writes the file \<open>workspace/1\<close>, and \<open>readfile(1)\<close> then returns its content.
\<close>

theorem number_argument_counterexample:
  "fst (call_cfunction CF_writefile [LNumber ''1'', LNumber ''2''] L_entry os_fresh) = [LBoolean True]
   \<and> nodes (snd (snd (call_cfunction CF_writefile [LNumber ''1'', LNumber ''2''] L_entry os_fresh)))
        [''workspace'', ''1''] = Some (File ''2'')
   \<and> fst (call_cfunction CF_readfile [LNumber ''1''] L_entry
        (snd (snd (call_cfunction CF_writefile [LNumber ''1'', LNumber ''2''] L_entry os_fresh))))
        = [LString ''2'']"
  by (simp add: run_defs os_fresh_def L_entry_def)

text \<open>
  C7, as the code has it. When the target \<open>workspace/<name>\<close> cannot be opened for
  writing, \<open>writefile\<close> returns false and no file is created or changed (the workspace
  directory is ensured, no more). When it can be opened and the device has room for the
  bytes of the content up to its first NUL byte, \<open>writefile\<close> returns true and the file
  holds exactly those bytes, which are all of the content when it has no NUL byte.
\<close>

theorem writefile_result:
  "(fst (ofstream_open (''workspace/'' @ c_str name)
           (ensureWorkspaceDirectory (ensureWorkspaceDirectory os))) = None \<longrightarrow>
      fst (call_cfunction CF_writefile [LString name, LString content] L os) = [LBoolean False]
      \<and> nodes (snd (snd (call_cfunction CF_writefile [LString name, LString content] L os)))
          = nodes (ensureWorkspaceDirectory os)
      \<and> free_space (snd (snd (call_cfunction CF_writefile [LString name, LString content] L os)))
          = free_space os)
   \<and> (fst (ofstream_open (''workspace/'' @ c_str name)
             (ensureWorkspaceDirectory (ensureWorkspaceDirectory os))) \<noteq> None
       \<and> length (c_str content) \<le> free_space os \<longrightarrow>
      fst (call_cfunction CF_writefile [LString name, LString content] L os) = [LBoolean True]
      \<and> (\<exists>k. resolve (snd (snd (call_cfunction CF_writefile [LString name, LString content] L os)))
                 (''workspace/'' @ c_str name) = Some k
              \<and> nodes (snd (snd (call_cfunction CF_writefile [LString name, LString content] L os))) k
                  = Some (File (c_str content))))
   \<and> (CHR 0x00 \<notin> set content \<longrightarrow> c_str content = content)"
proof -
  let ?os2 = "ensureWorkspaceDirectory (ensureWorkspaceDirectory os)"
  let ?p = "''workspace/'' @ c_str name"
  obtain r os3 where op: "ofstream_open ?p ?os2 = (r, os3)"
    by (cases "ofstream_open ?p ?os2")
  show ?thesis
  proof (cases r)
    case None
    with op have "os3 = ?os2\<lparr>calls := calls ?os2 @ [OfstreamOpen ?p]\<rparr>"
      by (simp add: ofstream_open_None)
    with op None show ?thesis
      by (simp add: call_writefile_strings ensure_nodes_idem ensure_frame c_str_id)
  next
    case (Some k)
    with op have t: "fst (call_cfunction CF_writefile [LString name, LString content] L os) = [LBoolean True]"
      by (simp add: call_writefile_strings)
    from writefile_true_file [OF t] op Some t show ?thesis
      by (auto simp: c_str_id)
  qed
qed

text \<open>
  \<open>writefile("k", "hi")\<close> where \<open>workspace\<close> is a regular file, and in an empty
  directory.
\<close>

theorem writefile_result_witness:
  "(fst (ofstream_open (''workspace/'' @ c_str ''k'')
           (ensureWorkspaceDirectory (ensureWorkspaceDirectory os_blocked))) = None
    \<and> fst (call_cfunction CF_writefile [LString ''k'', LString ''hi''] L_entry os_blocked) = [LBoolean False])
   \<and> (fst (ofstream_open (''workspace/'' @ c_str ''k'')
             (ensureWorkspaceDirectory (ensureWorkspaceDirectory os_fresh))) \<noteq> None
      \<and> length (c_str ''hi'') \<le> free_space os_fresh
      \<and> CHR 0x00 \<notin> set ''hi''
      \<and> fst (call_cfunction CF_writefile [LString ''k'', LString ''hi''] L_entry os_fresh) = [LBoolean True])"
proof -
  have a: "fst (ofstream_open (''workspace/'' @ c_str ''k'')
             (ensureWorkspaceDirectory (ensureWorkspaceDirectory os_blocked))) = None"
    by (simp add: run_defs os_blocked_def)
  have b: "fst (ofstream_open (''workspace/'' @ c_str ''k'')
             (ensureWorkspaceDirectory (ensureWorkspaceDirectory os_fresh))) \<noteq> None"
    by (simp add: run_defs os_fresh_def)
  have c: "length (c_str ''hi'') \<le> free_space os_fresh"
    by (simp add: c_str_def os_fresh_def)
  from writefile_result [where name = "''k''" and os = os_blocked and content = "''hi''" and L = L_entry]
       writefile_result [where name = "''k''" and os = os_fresh and content = "''hi''" and L = L_entry]
       a b c
  show ?thesis by simp
qed

text \<open>
  C7 as stated fails for a content with a NUL byte: \<open>writefile\<close> returns true, on a
  device with room, and the file holds one byte of the three.
\<close>

theorem writefile_true_partial_counterexample:
  "fst (call_cfunction CF_writefile [LString ''k'', LString [CHR ''a'', CHR 0x00, CHR ''b'']]
          L_entry os_fresh) = [LBoolean True]
   \<and> nodes (snd (snd (call_cfunction CF_writefile
               [LString ''k'', LString [CHR ''a'', CHR 0x00, CHR ''b'']] L_entry os_fresh)))
        [''workspace'', ''k''] = Some (File ''a'')
   \<and> length [CHR ''a'', CHR 0x00, CHR ''b''] \<le> free_space os_fresh"
  by (simp add: run_defs os_fresh_def L_entry_def)

text \<open>
  C4, as the code has it. For a name without a path separator and any byte string \<open>s\<close>:
  when \<open>writefile\<close> returns true and the device had room, the entry of that name in the
  workspace directory holds \<open>s\<close> up to its first NUL byte, and \<open>readfile\<close> of the same
  name returns just that, which is \<open>s\<close> itself, byte for byte, when \<open>s\<close> has no NUL
  byte.
\<close>

theorem writefile_readfile_roundtrip:
  assumes "CHR ''/'' \<notin> set name"
    and "fst (call_cfunction CF_writefile [LString name, LString s] L os) = [LBoolean True]"
    and "length (c_str s) \<le> free_space os"
  shows "fst (call_cfunction CF_readfile [LString name] L'
               (snd (snd (call_cfunction CF_writefile [LString name, LString s] L os))))
           = [LString (c_str s)]
         \<and> nodes (snd (snd (call_cfunction CF_writefile [LString name, LString s] L os)))
               (cwd os @ [''workspace'', c_str name]) = Some (File (c_str s))
         \<and> (CHR 0x00 \<notin> set s \<longrightarrow> c_str s = s)"
proof -
  let ?os1 = "snd (snd (call_cfunction CF_writefile [LString name, LString s] L os))"
  from writefile_true_file [OF assms(2)] obtain k
    where "resolve ?os1 (''workspace/'' @ c_str name) = Some k"
      and "nodes ?os1 k = Some (File (take (free_space os) (c_str s)))"
    by blast
  then have "fst (call_cfunction CF_readfile [LString name] L' ?os1)
               = [LString (c_str (take (free_space os) (c_str s)))]"
    by (rule readfile_after_file)
  with assms(3) writefile_true_entry [OF assms(2) assms(1)] show ?thesis
    by (simp add: c_str_idem c_str_id)
qed

text \<open>\<open>writefile("k", "hi")\<close> and \<open>readfile("k")\<close> in an empty directory.\<close>

theorem writefile_readfile_roundtrip_witness:
  "CHR ''/'' \<notin> set ''k''
   \<and> fst (call_cfunction CF_writefile [LString ''k'', LString ''hi''] L_entry os_fresh) = [LBoolean True]
   \<and> length (c_str ''hi'') \<le> free_space os_fresh
   \<and> CHR 0x00 \<notin> set ''hi''
   \<and> fst (call_cfunction CF_readfile [LString ''k''] L_entry
            (snd (snd (call_cfunction CF_writefile [LString ''k'', LString ''hi''] L_entry os_fresh))))
        = [LString ''hi'']
   \<and> nodes (snd (snd (call_cfunction CF_writefile [LString ''k'', LString ''hi''] L_entry os_fresh)))
        [''workspace'', ''k''] = Some (File ''hi'')"
proof -
  have n: "CHR ''/'' \<notin> set ''k''" by simp
  have a: "fst (call_cfunction CF_writefile [LString ''k'', LString ''hi''] L_entry os_fresh) = [LBoolean True]"
    by (simp add: run_defs os_fresh_def L_entry_def)
  have b: "length (c_str ''hi'') \<le> free_space os_fresh"
    by (simp add: c_str_def os_fresh_def)
  have c: "c_str ''hi'' = ''hi''" "c_str ''k'' = ''k''" "cwd os_fresh = []"
    by (simp_all add: c_str_def os_fresh_def)
  from writefile_readfile_roundtrip [OF n a b, of L_entry] a b c show ?thesis by simp
qed

text \<open>
  C4 as stated fails for a byte string with a NUL byte: written and read back under the
  name \<open>k\<close>, in an empty directory with room, \<open>a\<close> NUL \<open>b\<close> comes back as \<open>a\<close>.
\<close>

theorem roundtrip_nul_counterexample:
  "fst (call_cfunction CF_writefile [LString ''k'', LString [CHR ''a'', CHR 0x00, CHR ''b'']]
          L_entry os_fresh) = [LBoolean True]
   \<and> fst (call_cfunction CF_readfile [LString ''k''] L_entry
            (snd (snd (call_cfunction CF_writefile
                         [LString ''k'', LString [CHR ''a'', CHR 0x00, CHR ''b'']] L_entry os_fresh))))
        = [LString ''a'']
   \<and> [LString ''a''] \<noteq> [LString [CHR ''a'', CHR 0x00, CHR ''b'']]"
  by (simp add: run_defs os_fresh_def L_entry_def)

text \<open>
  C9, as the code has it. For a string name \<open>x\<close>, \<open>readfile\<close> runs \<open>mkdir -p workspace\<close>
  and then opens, for reading, the path \<open>workspace/\<close> followed by \<open>x\<close> up to its first
  NUL byte; \<open>writefile\<close> with a string content runs \<open>mkdir -p workspace\<close> twice and then
  opens that path for writing. These are all the calls each makes, in this order. The
  path is \<open>workspace/\<close> followed by \<open>x\<close> when \<open>x\<close> has no NUL byte.
\<close>

theorem file_path_opened:
  "calls (snd (snd (readfile_lambda (L\<lparr>stack := LString x # rest\<rparr>) os)))
     = calls os @ [System ''mkdir -p workspace'', IfstreamOpen (''workspace/'' @ c_str x)]
   \<and> calls (snd (snd (writefile_lambda (L\<lparr>stack := LString x # LString c # rest\<rparr>) os)))
     = calls os @ [System ''mkdir -p workspace'', System ''mkdir -p workspace'',
                   OfstreamOpen (''workspace/'' @ c_str x)]
   \<and> (CHR 0x00 \<notin> set x \<longrightarrow> c_str x = x)"
proof -
  have "calls (snd (snd (readfile_lambda (L\<lparr>stack := LString x # rest\<rparr>) os)))
          = calls (snd (ifstream_open (''workspace/'' @ c_str x) (ensureWorkspaceDirectory os)))"
    by (simp add: readfile_lambda_def readfile_string split: prod.splits option.splits)
  moreover
  have "calls (snd (snd (writefile_lambda (L\<lparr>stack := LString x # LString c # rest\<rparr>) os)))
          = calls (snd (ofstream_open (''workspace/'' @ c_str x)
                     (ensureWorkspaceDirectory (ensureWorkspaceDirectory os))))"
    by (simp add: writefile_lambda_strings ofstream_write_calls split: prod.splits option.splits)
  ultimately show ?thesis
    by (simp only: ifstream_open_calls ofstream_open_calls ensure_calls) (simp add: c_str_id)
qed

text \<open>The calls of \<open>readfile("notes.txt")\<close> and of \<open>writefile("notes.txt", "hi")\<close>.\<close>

theorem file_path_opened_witness:
  "CHR 0x00 \<notin> set ''notes.txt''
   \<and> calls (snd (snd (readfile_lambda (L_entry\<lparr>stack := [LString ''notes.txt'']\<rparr>) os_fresh)))
       = [System ''mkdir -p workspace'', IfstreamOpen ''workspace/notes.txt'']
   \<and> calls (snd (snd (writefile_lambda
               (L_entry\<lparr>stack := [LString ''notes.txt'', LString ''hi'']\<rparr>) os_fresh)))
       = [System ''mkdir -p workspace'', System ''mkdir -p workspace'',
          OfstreamOpen ''workspace/notes.txt'']"
proof -
  have a: "CHR 0x00 \<notin> set ''notes.txt''" by simp
  have b: "calls os_fresh = []" by (simp add: os_fresh_def)
  from file_path_opened [where L = L_entry and x = "''notes.txt''" and rest = "[]" and os = os_fresh
         and c = "''hi''"] a b
  show ?thesis by simp
qed

text \<open>
  C9 as stated fails for a name with a NUL byte: for \<open>a\<close> NUL \<open>b\<close> the path opened is
  \<open>workspace/a\<close>, not \<open>workspace/\<close> followed by the name.
\<close>

theorem path_nul_counterexample:
  "calls (snd (snd (readfile_lambda
            (L_entry\<lparr>stack := [LString [CHR ''a'', CHR 0x00, CHR ''b'']]\<rparr>) os_fresh)))
     = [System ''mkdir -p workspace'', IfstreamOpen ''workspace/a'']
   \<and> ''workspace/a'' \<noteq> ''workspace/'' @ [CHR ''a'', CHR 0x00, CHR ''b'']"
  by (simp add: run_defs os_fresh_def L_entry_def)


end
